theory Spec2Isabelle
  imports Complex_Main
begin

section \<open>Errors\<close>

text \<open>
  Every Python exception that the modelled code can raise is a value of this type; a
  computation that can raise returns \<open>error + 'a\<close>, with \<open>Inl\<close> for the exception.
\<close>

datatype error =
    AssertionError
  | IndexError
  | ValueError
  | ZeroDivisionError
  | RuntimeError
  | EinopsError
  | OSError
  | SizeError
  | ShapeError
  | TypeError
  | OverflowError

section \<open>The dataset: \<open>neutorch/dataset/segmentation.py\<close>\<close>

subsection \<open>Arrays and the float32 conversion\<close>

text \<open>
  A three-dimensional array (a \<open>Chunk\<close>) is a list of sections, each a list of rows.
\<close>

type_synonym 'a array3 = "'a list list list"

definition map_array3 :: "('a \<Rightarrow> 'b) \<Rightarrow> 'a array3 \<Rightarrow> 'b array3" where
  "map_array3 f a = map (map (map f)) a"


text \<open>
  numpy's \<open>float32\<close> is IEEE 754 binary32 with rounding to nearest, ties to even. A
  finite binary32 value is a real number, so the conversion is a function on the reals:
  the quantum of \<open>x\<close> is \<open>2\<close> to the power of its exponent (at least \<open>-126\<close>, the
  subnormal range) minus the \<open>23\<close> fraction bits, and \<open>x\<close> is rounded to the nearest
  multiple of its quantum. Magnitudes of \<open>2 ^ 128\<close> and more, which binary32 rounds to
  infinity, are beyond every integer type of numpy and every quotient formed here.
\<close>

definition round_half_even :: "real \<Rightarrow> int" where
  "round_half_even x =
     (let f = \<lfloor>x\<rfloor>; r = x - of_int f
      in if r < 1 / 2 then f
         else if 1 / 2 < r then f + 1
         else if even f then f else f + 1)"

definition float32_exponent :: "real \<Rightarrow> int" where
  "float32_exponent x = max \<lfloor>log 2 \<bar>x\<bar>\<rfloor> (- 126)"

definition to_float32 :: "real \<Rightarrow> real" where
  "to_float32 x =
     (if x = 0 then 0
      else let q = 2 powi (float32_exponent x - 23)
           in of_int (round_half_even (x / q)) * q)"

text \<open>\<open>chunk.astype(np.float32)\<close> and the division of a float32 array by a scalar.\<close>

definition astype_float32 :: "int array3 \<Rightarrow> real array3" where
  "astype_float32 a = map_array3 (\<lambda>v. to_float32 (of_int v)) a"

definition div_float32 :: "real array3 \<Rightarrow> real \<Rightarrow> real array3" where
  "div_float32 a d = map_array3 (\<lambda>v. to_float32 (v / d)) a"

subsection \<open>The transformation pipeline\<close>

text \<open>
  The transformations named by \<open>_prepare_transform\<close>. \<open>NormalizeTo01\<close> carries the
  probability it is built with; \<open>OneOf\<close> carries its alternatives.
\<close>

datatype transformation =
    NormalizeTo01 real
  | AdjustBrightness
  | AdjustContrast
  | Gamma
  | OneOf "transformation list"
  | Noise
  | GaussianBlur2D
  | BlackBox
  | Perspective2D
  | Flip
  | Transpose
  | MissAlignment

record Compose =
  transforms :: "transformation list"
  shrink_size :: "int list"

text \<open>
  Modelled from the spec: the class \<open>Compose\<close> of \<open>neutorch/dataset/transform.py\<close>
  is not among the sources. Its \<open>shrink_size\<close> is the elementwise sum of the
  \<open>shrink_size\<close> of every member, starting from the zero vector of six entries (low
  margins of the three axes, then high margins). The table \<open>shrink_of\<close> of the
  members' own shrink sizes is a parameter.
\<close>

definition Compose_init :: "(transformation \<Rightarrow> int list) \<Rightarrow> transformation list \<Rightarrow> Compose" where
  "Compose_init shrink_of ts =
     \<lparr> transforms = ts,
       shrink_size = foldl (\<lambda>acc t. map2 (+) acc (shrink_of t)) [0, 0, 0, 0, 0, 0] ts \<rparr>"

definition prepare_transform :: "(transformation \<Rightarrow> int list) \<Rightarrow> Compose" where
  "prepare_transform shrink_of =
     Compose_init shrink_of
       [ NormalizeTo01 1,
         AdjustBrightness,
         AdjustContrast,
         Gamma,
         OneOf [Noise, GaussianBlur2D],
         BlackBox,
         Perspective2D,
         Flip,
         Transpose,
         MissAlignment ]"

subsection \<open>Volumes and the object store\<close>

text \<open>
  Modelled from the spec: the class \<open>GroundTruthVolume\<close> of
  \<open>neutorch/dataset/ground_truth_volume.py\<close> is not among the sources. It owns one
  image, one label array and the configured (pre-transform) patch size; constructing it
  stores the three arguments. The fields carry the prefix \<open>gt_\<close>: \<open>image\<close> is a
  constant of HOL and \<open>patch_size\<close> a field of the dataset.
\<close>

record GroundTruthVolume =
  gt_image :: "real array3"
  gt_label :: "int array3"
  gt_patch_size :: "int list"

definition GroundTruthVolume_init :: "real array3 \<Rightarrow> int array3 \<Rightarrow> int list \<Rightarrow> GroundTruthVolume" where
  "GroundTruthVolume_init img lbl ps = \<lparr> gt_image = img, gt_label = lbl, gt_patch_size = ps \<rparr>"

text \<open>
  Python lists hold references to objects. The store is the list of the volume objects
  allocated so far; a reference is the position of its object in the store.
\<close>

type_synonym ref = nat
type_synonym store = "GroundTruthVolume list"

definition alloc :: "store \<Rightarrow> GroundTruthVolume \<Rightarrow> ref \<times> store" where
  "alloc h v = (length h, h @ [v])"

subsection \<open>\<open>CremiDataset.__init__\<close>\<close>

record CremiDataset =
  transform :: Compose
  patch_size :: "int list"
  training_volumes :: "ref list"
  validation_volumes :: "ref list"

text \<open>The argument \<open>patch_size\<close> is an \<open>int\<close> or a tuple.\<close>

datatype patch_size_arg = PatchInt int | PatchTuple "int list"

text \<open>
  \<open>tuple(p + s0 + s1 for p, s0, s1 in zip(patch_size, shrink_size[:3], shrink_size[-3:]))\<close>.
  The slice \<open>[:3]\<close> keeps at most the first three entries, \<open>[-3:]\<close> at most the last
  three, and \<open>zip\<close> stops with its shortest argument.
\<close>

definition patch_size_before_transform :: "int list \<Rightarrow> int list \<Rightarrow> int list" where
  "patch_size_before_transform ps ss =
     map (\<lambda>(p, s0, s1). p + s0 + s1)
       (zip ps (zip (take 3 ss) (drop (length ss - 3) ss)))"

definition files :: "string list" where
  "files = [''./data/cremi/sample_A.hdf'', ''./data/cremi/sample_B.hdf'',
            ''./data/cremi/sample_C.hdf'']"

text \<open>
  The loop over \<open>files\<close>. \<open>Chunk.from_h5\<close> belongs to the chunkflow library; what it
  reads from a file and a dataset path, or the exception it raises, is the parameter
  \<open>from_h5\<close>. Each new volume object is allocated in the store and its reference
  appended to \<open>volumes\<close>.
\<close>

fun load_volumes ::
  "(string \<Rightarrow> string \<Rightarrow> error + int array3) \<Rightarrow> int list \<Rightarrow> string list \<Rightarrow>
   ref list \<Rightarrow> store \<Rightarrow> error + (ref list \<times> store)" where
  "load_volumes from_h5 psb [] volumes h = Inr (volumes, h)"
| "load_volumes from_h5 psb (file # rest) volumes h =
     (case from_h5 file ''volumes/raw'' of
        Inl e \<Rightarrow> Inl e
      | Inr raw \<Rightarrow>
          (case from_h5 file ''volumes/labels/neuron_ids'' of
             Inl e \<Rightarrow> Inl e
           | Inr lbl \<Rightarrow>
               (let img = div_float32 (astype_float32 raw) 255;
                    (r, h') = alloc h (GroundTruthVolume_init img lbl psb)
                in load_volumes from_h5 psb rest (volumes @ [r]) h')))"

text \<open>
  The constructor. \<open>training_split_ratio\<close> is a Python float; it is only compared with
  \<open>0.5\<close> and \<open>1.\<close>, both exact, so it is modelled as the real number it denotes (for
  a NaN both comparisons are false, as for a real outside the interval).
\<close>

definition CremiDataset_init ::
  "(string \<Rightarrow> string \<Rightarrow> error + int array3) \<Rightarrow> (transformation \<Rightarrow> int list) \<Rightarrow> store \<Rightarrow>
   real \<Rightarrow> patch_size_arg \<Rightarrow> error + (CremiDataset \<times> store)" where
  "CremiDataset_init from_h5 shrink_of h training_split_ratio patch_size_arg =
     (if \<not> training_split_ratio > 1 / 2 then Inl AssertionError
      else if \<not> training_split_ratio < 1 then Inl AssertionError
      else
        let ps = (case patch_size_arg of PatchInt p \<Rightarrow> [p, p, p] | PatchTuple t \<Rightarrow> t);
            tr = prepare_transform shrink_of;
            psb = patch_size_before_transform ps (shrink_size tr)
        in case load_volumes from_h5 psb files [] h of
             Inl e \<Rightarrow> Inl e
           | Inr (volumes, h') \<Rightarrow>
               (case volumes of
                  [] \<Rightarrow> Inl IndexError
                | v0 # _ \<Rightarrow>
                    Inr (\<lparr> transform = tr, patch_size = ps,
                           training_volumes = drop 1 volumes,
                           validation_volumes = [v0] \<rparr>, h')))"

subsection \<open>Sampling\<close>

text \<open>
  The process-wide random generator is the sequence of its future draws; drawing reads
  the first and leaves the rest. \<open>random.choice\<close> raises \<open>IndexError\<close> on an empty
  sequence.
\<close>

type_synonym rng = "nat \<Rightarrow> nat"

definition random_choice :: "'a list \<Rightarrow> rng \<Rightarrow> error + ('a \<times> rng)" where
  "random_choice xs g =
     (if xs = [] then Inl IndexError
      else Inr (xs ! (g 0 mod length xs), \<lambda>i. g (Suc i)))"

text \<open>
  The classes \<open>GroundTruthVolume\<close>, \<open>Compose\<close> and \<open>Patch\<close> are not among the
  sources. What the sampling entry points call on them is a parameter: drawing a patch
  from a volume and running the pipeline on a patch consume randomness and may raise;
  cropping may raise; \<open>patch.shape\<close> is read. A patch object mutated in place is
  the patch handed from one call to the next.
\<close>

record 'p collaborators =
  random_patch :: "GroundTruthVolume \<Rightarrow> rng \<Rightarrow> error + ('p \<times> rng)"
  transform_call :: "Compose \<Rightarrow> 'p \<Rightarrow> rng \<Rightarrow> error + ('p \<times> rng)"
  apply_delayed_shrink_size :: "'p \<Rightarrow> error + 'p"
  shape :: "'p \<Rightarrow> int list"

text \<open>
  Following a reference. A reference held by a dataset always names an object of the
  store it was built in; \<open>RuntimeError\<close> marks the use of any other store.
\<close>

definition deref :: "store \<Rightarrow> ref \<Rightarrow> error + GroundTruthVolume" where
  "deref h r = (if r < length h then Inr (h ! r) else Inl RuntimeError)"

text \<open>\<open>shape[-3:]\<close>: at most the last three entries.\<close>

definition last3 :: "'a list \<Rightarrow> 'a list" where
  "last3 xs = drop (length xs - 3) xs"

text \<open>The three stages shared by both entry points, up to the crop.\<close>

definition sample_from ::
  "'p collaborators \<Rightarrow> CremiDataset \<Rightarrow> store \<Rightarrow> ref list \<Rightarrow> rng \<Rightarrow> error + ('p \<times> rng)" where
  "sample_from C d h vols g =
     (case random_choice vols g of
        Inl e \<Rightarrow> Inl e
      | Inr (r, g1) \<Rightarrow>
          (case deref h r of
             Inl e \<Rightarrow> Inl e
           | Inr volume \<Rightarrow>
               (case random_patch C volume g1 of
                  Inl e \<Rightarrow> Inl e
                | Inr (patch, g2) \<Rightarrow>
                    (case transform_call C (transform d) patch g2 of
                       Inl e \<Rightarrow> Inl e
                     | Inr (patch', g3) \<Rightarrow>
                         (case apply_delayed_shrink_size C patch' of
                            Inl e \<Rightarrow> Inl e
                          | Inr patch'' \<Rightarrow> Inr (patch'', g3))))))"

text \<open>The two entry points. Console output (\<open>print\<close>) is not modelled.\<close>

definition random_training_patch ::
  "'p collaborators \<Rightarrow> CremiDataset \<Rightarrow> store \<Rightarrow> rng \<Rightarrow> error + ('p \<times> rng)" where
  "random_training_patch C d h g =
     (case sample_from C d h (training_volumes d) g of
        Inl e \<Rightarrow> Inl e
      | Inr (patch, g') \<Rightarrow>
          (if last3 (shape C patch) = patch_size d then Inr (patch, g')
           else Inl AssertionError))"

definition random_validation_patch ::
  "'p collaborators \<Rightarrow> CremiDataset \<Rightarrow> store \<Rightarrow> rng \<Rightarrow> error + ('p \<times> rng)" where
  "random_validation_patch C d h g = sample_from C d h (validation_volumes d) g"

subsection \<open>The collaborators as the spec describes them\<close>

text \<open>
  Modelled from the spec: \<open>Patch\<close>, \<open>GroundTruthVolume.random_patch\<close>,
  \<open>Compose.__call__\<close> and \<open>Patch.apply_delayed_shrink_size\<close> are not among the
  sources. Of a patch only what the entry points read is kept: its shape
  \<open>(1, channel, z, y, x)\<close> and its pending shrink, six margins (low of the three
  axes, then high).
\<close>

record Patch =
  patch_shape :: "int list"
  delayed_shrink_size :: "int list"

definition shape3 :: "'a array3 \<Rightarrow> int list" where
  "shape3 a =
     (case a of
        [] \<Rightarrow> [0, 0, 0]
      | sec # _ \<Rightarrow>
          (case sec of
             [] \<Rightarrow> [int (length a), 0, 0]
           | row # _ \<Rightarrow> [int (length a), int (length sec), int (length row)]))"

text \<open>
  Modelled from the spec (4.1): a patch of exactly the configured size, at a random
  offset (one draw per axis); \<open>SizeError\<close> when the size exceeds the extent of the
  volume on some axis.
\<close>

definition spec_random_patch :: "GroundTruthVolume \<Rightarrow> rng \<Rightarrow> error + (Patch \<times> rng)" where
  "spec_random_patch v g =
     (if \<not> list_all2 (\<le>) (gt_patch_size v) (shape3 (gt_image v)) then Inl SizeError
      else Inr (\<lparr> patch_shape = [1, 1] @ gt_patch_size v,
                  delayed_shrink_size = [0, 0, 0, 0, 0, 0] \<rparr>,
                \<lambda>i. g (i + 3)))"

text \<open>
  Modelled from the spec (4.2, 4.3): the pipeline runs its members in order; each draws
  once and records its margin in the pending shrink of the patch, without cropping.
\<close>

definition spec_transform_call ::
  "(transformation \<Rightarrow> int list) \<Rightarrow> Compose \<Rightarrow> Patch \<Rightarrow> rng \<Rightarrow> error + (Patch \<times> rng)" where
  "spec_transform_call shrink_of c p g =
     Inr (foldl (\<lambda>q t. q\<lparr> delayed_shrink_size := map2 (+) (delayed_shrink_size q) (shrink_of t) \<rparr>)
            p (transforms c),
          \<lambda>i. g (i + length (transforms c)))"

text \<open>
  Modelled from the spec (4.4): the crop removes the pending low and high margin from
  each of the last three axes and clears the pending shrink; \<open>ShapeError\<close> when the
  patch has fewer than three axes, the pending shrink is not six margins, or an axis is
  smaller than its margins.
\<close>

definition spec_apply_delayed_shrink_size :: "Patch \<Rightarrow> error + Patch" where
  "spec_apply_delayed_shrink_size p =
     (let sh = patch_shape p; ds = delayed_shrink_size p
      in if length sh < 3 \<or> length ds \<noteq> 6 then Inl ShapeError
         else
           let cropped = map (\<lambda>(n, s0, s1). n - s0 - s1) (zip (last3 sh) (zip (take 3 ds) (drop 3 ds)))
           in if \<exists>n \<in> set cropped. n < 0 then Inl ShapeError
              else Inr \<lparr> patch_shape = take (length sh - 3) sh @ cropped,
                         delayed_shrink_size = [0, 0, 0, 0, 0, 0] \<rparr>)"

definition spec_collaborators :: "(transformation \<Rightarrow> int list) \<Rightarrow> Patch collaborators" where
  "spec_collaborators shrink_of =
     \<lparr> random_patch = spec_random_patch,
       transform_call = spec_transform_call shrink_of,
       apply_delayed_shrink_size = spec_apply_delayed_shrink_size,
       shape = patch_shape \<rparr>"

section \<open>The model: \<open>neutorch/model/ViT.py\<close>\<close>

text \<open>
  The network is modelled on tensor shapes: a tensor is the list of its sizes, a module
  is what decides shapes (its sizes and submodules), and \<open>forward\<close> maps the shape of
  its input to the shape of its output or to the exception raised on a mismatch. The
  sizes of a tensor lie in \<open>[0, 2 ^ 63)\<close>; \<open>forward\<close> is applied to such lists. The
  floating-point contents of tensors and weights are not represented, nor is the number
  of elements a tensor holds or the memory it takes: an allocation that the machine
  cannot satisfy raises in torch and succeeds here. \<open>print\<close> is not modelled.
\<close>

type_synonym tshape = "int list"

definition tensor_shape :: "tshape \<Rightarrow> bool" where
  "tensor_shape s = list_all (\<lambda>x. 0 \<le> x \<and> x < 2 ^ 63) s"

definition then_do :: "error + 'a \<Rightarrow> ('a \<Rightarrow> error + 'b) \<Rightarrow> error + 'b" where
  "then_do r f = (case r of Inl e \<Rightarrow> Inl e | Inr x \<Rightarrow> f x)"

subsection \<open>Integers of Python, numpy and torch\<close>

text \<open>
  Python integers are unbounded; numpy and torch hold sizes in 64 bits. \<open>fits_int64\<close>
  is the range of a signed 64-bit integer, \<open>fits_uint64\<close> the part of the unsigned
  range above it, \<open>int64\<close> the wrap-around of signed 64-bit arithmetic. Converting a
  Python integer to a float raises \<open>OverflowError\<close> when it rounds to \<open>2 ^ 1024\<close> or
  beyond.
\<close>

definition fits_int64 :: "int \<Rightarrow> bool" where
  "fits_int64 x = (- (2 ^ 63) \<le> x \<and> x < 2 ^ 63)"

definition fits_uint64 :: "int \<Rightarrow> bool" where
  "fits_uint64 x = (2 ^ 63 \<le> x \<and> x < 2 ^ 64)"

definition int64 :: "int \<Rightarrow> int" where
  "int64 x = (x + 2 ^ 63) mod 2 ^ 64 - 2 ^ 63"

definition float_overflow :: "int \<Rightarrow> bool" where
  "float_overflow x = (2 ^ 1024 - 2 ^ 970 \<le> \<bar>x\<bar>)"

text \<open>
  What \<open>np.product(patch_size) * in_channels\<close> can be, in the versions of numpy that
  have \<open>np.product\<close>: a numpy \<open>int64\<close>, a numpy \<open>uint64\<close>, a float, or a Python
  integer.
\<close>

datatype number = NpInt64 int | NpUInt64 int | NpFloat64 | PyInt int

text \<open>
  \<open>np.product\<close> of a tuple of Python integers first makes an array of them. Entries
  that all fit \<open>int64\<close> give an \<open>int64\<close> array, whose product wraps; an entry beyond
  both 64-bit ranges gives an array of Python objects, whose product is exact; entries
  that all need \<open>uint64\<close> give a \<open>uint64\<close> array, whose product wraps; a mixture
  of \<open>int64\<close> and \<open>uint64\<close> entries gives an array of floats.
\<close>

definition np_product :: "int list \<Rightarrow> number" where
  "np_product xs =
     (if list_all fits_int64 xs then NpInt64 (int64 (prod_list xs))
      else if list_ex (\<lambda>x. \<not> fits_int64 x \<and> \<not> fits_uint64 x) xs then PyInt (prod_list xs)
      else if list_all fits_uint64 xs then NpUInt64 (prod_list xs mod 2 ^ 64)
      else NpFloat64)"

text \<open>
  The product of such a value with a Python integer \<open>c\<close>. A numpy integer times a
  \<open>c\<close> of its own kind wraps; \<open>int64\<close> with \<open>uint64\<close> promotes to a float; a
  \<open>c\<close> beyond both ranges makes the product one of Python objects, exact on integers
  and raising \<open>OverflowError\<close> when a float meets a \<open>c\<close> too large for a float.
\<close>

definition np_times :: "number \<Rightarrow> int \<Rightarrow> error + number" where
  "np_times x c =
     (case x of
        NpInt64 p \<Rightarrow>
          (if fits_int64 c then Inr (NpInt64 (int64 (p * c)))
           else if fits_uint64 c then Inr NpFloat64
           else Inr (PyInt (p * c)))
      | NpUInt64 p \<Rightarrow>
          (if fits_int64 c then Inr NpFloat64
           else if fits_uint64 c then Inr (NpUInt64 (p * c mod 2 ^ 64))
           else Inr (PyInt (p * c)))
      | NpFloat64 \<Rightarrow>
          (if fits_int64 c \<or> fits_uint64 c then Inr NpFloat64
           else if float_overflow c then Inl OverflowError
           else Inr NpFloat64)
      | PyInt p \<Rightarrow> Inr (PyInt (p * c)))"

text \<open>
  A value given to torch as a size: an integer that fits \<open>int64\<close> is taken, anything
  else (a float, an integer too large) is refused with \<open>TypeError\<close>.
\<close>

definition as_size :: "number \<Rightarrow> error + int" where
  "as_size x =
     (case x of
        NpInt64 v \<Rightarrow> Inr v
      | NpUInt64 v \<Rightarrow> (if fits_int64 v then Inr v else Inl TypeError)
      | NpFloat64 \<Rightarrow> Inl TypeError
      | PyInt v \<Rightarrow> (if fits_int64 v then Inr v else Inl TypeError))"

subsection \<open>Library modules\<close>

text \<open>\<open>nn.Linear\<close>: at construction a size that does not fit \<open>int64\<close> raises
  \<open>TypeError\<close>, a negative size \<open>RuntimeError\<close>, and so does a weight matrix whose
  number of elements does not fit \<open>int64\<close>; \<open>forward\<close> replaces the last size, which
  must be \<open>in_features\<close>.\<close>

record Linear =
  in_features :: int
  out_features :: int

definition Linear_init :: "int \<Rightarrow> int \<Rightarrow> error + Linear" where
  "Linear_init i out =
     (if \<not> fits_int64 i \<or> \<not> fits_int64 out then Inl TypeError
      else if i < 0 \<or> out < 0 then Inl RuntimeError
      else if \<not> fits_int64 (out * i) then Inl RuntimeError
      else Inr \<lparr> in_features = i, out_features = out \<rparr>)"

definition Linear_forward :: "Linear \<Rightarrow> tshape \<Rightarrow> error + tshape" where
  "Linear_forward l s =
     (if s = [] \<or> last s \<noteq> in_features l then Inl RuntimeError
      else Inr (butlast s @ [out_features l]))"

text \<open>\<open>nn.LayerNorm(dim)\<close>: constructed like a size of \<open>nn.Linear\<close>; the last size of
  the input must be \<open>dim\<close>; the shape is kept.\<close>

definition LayerNorm_init :: "int \<Rightarrow> error + int" where
  "LayerNorm_init n =
     (if \<not> fits_int64 n then Inl TypeError
      else if n < 0 then Inl RuntimeError
      else Inr n)"

definition LayerNorm_forward :: "int \<Rightarrow> tshape \<Rightarrow> error + tshape" where
  "LayerNorm_forward n s =
     (if s = [] \<or> last s \<noteq> n then Inl RuntimeError else Inr s)"

text \<open>\<open>nn.Dropout(p)\<close>: \<open>ValueError\<close> unless \<open>0 \<le> p \<le> 1\<close>; the shape is kept, as it is
  by \<open>nn.GELU\<close>, \<open>nn.Softmax\<close>, \<open>nn.Identity\<close> and the product with a scalar.\<close>

definition Dropout_init :: "real \<Rightarrow> error + real" where
  "Dropout_init p = (if p < 0 \<or> 1 < p then Inl ValueError else Inr p)"

text \<open>The sum of two tensors has the broadcast of their shapes: aligned at the last
  axis, two sizes must be equal or one of them \<open>1\<close>.\<close>

fun broadcast_rev :: "tshape \<Rightarrow> tshape \<Rightarrow> error + tshape" where
  "broadcast_rev [] ys = Inr ys"
| "broadcast_rev (x # xs) [] = Inr (x # xs)"
| "broadcast_rev (x # xs) (y # ys) =
     (if x = y \<or> y = 1 then then_do (broadcast_rev xs ys) (\<lambda>r. Inr (x # r))
      else if x = 1 then then_do (broadcast_rev xs ys) (\<lambda>r. Inr (y # r))
      else Inl RuntimeError)"

definition broadcast :: "tshape \<Rightarrow> tshape \<Rightarrow> error + tshape" where
  "broadcast a b = then_do (broadcast_rev (rev a) (rev b)) (\<lambda>r. Inr (rev r))"

text \<open>\<open>x.chunk(k, dim=-1)\<close>: pieces of \<open>ceil(l / k)\<close> along the last axis, the last piece
  smaller when \<open>l\<close> is not a multiple; \<open>k\<close> empty pieces when \<open>l = 0\<close>.\<close>

definition chunk_last :: "int \<Rightarrow> tshape \<Rightarrow> error + tshape list" where
  "chunk_last k s =
     (if s = [] then Inl IndexError
      else
        let l = last s; pre = butlast s; piece = (l + k - 1) div k
        in if l = 0 then Inr (replicate (nat k) (pre @ [0]))
           else Inr (replicate (nat (l div piece)) (pre @ [piece])
                     @ (if l mod piece = 0 then [] else [pre @ [l mod piece]])))"

text \<open>
  The einops patterns of the source. einops compares the length of a composed axis with
  the product of the lengths it is given (\<open>EinopsError\<close> on a mismatch), divides by
  that product to find a length it is not given (Python's \<open>%\<close> and \<open>//\<close>, so
  \<open>ZeroDivisionError\<close> for the product \<open>0\<close>), and reshapes; the reshape of torch
  refuses a size that does not fit \<open>int64\<close> with \<open>TypeError\<close> and a negative size
  with \<open>RuntimeError\<close>.
\<close>

definition rearrange_flatten_patch :: "tshape \<Rightarrow> error + tshape" where
  \<comment> \<open>\<open>'b n pci pz py px -> b n (pci pz py px)'\<close>\<close>
  "rearrange_flatten_patch s =
     (case s of
        [b, n, pci, pz, py, px] \<Rightarrow>
          (if \<not> fits_int64 (pci * pz * py * px) then Inl TypeError
           else Inr [b, n, pci * pz * py * px])
      | _ \<Rightarrow> Inl EinopsError)"

definition rearrange_unflatten_patch :: "int \<Rightarrow> int \<Rightarrow> int \<Rightarrow> int \<Rightarrow> tshape \<Rightarrow> error + tshape" where
  \<comment> \<open>\<open>'b n (pco pz py px) -> b n pco pz py px'\<close> with all four sizes given\<close>
  "rearrange_unflatten_patch pco pz py px s =
     (case s of
        [b, n, l] \<Rightarrow>
          (if l \<noteq> pco * pz * py * px then Inl EinopsError
           else if \<not> list_all fits_int64 [pco, pz, py, px] then Inl TypeError
           else if list_ex (\<lambda>x. x < 0) [pco, pz, py, px] then Inl RuntimeError
           else Inr [b, n, pco, pz, py, px])
      | _ \<Rightarrow> Inl EinopsError)"

definition rearrange_split_heads :: "int \<Rightarrow> tshape \<Rightarrow> error + tshape" where
  \<comment> \<open>\<open>'b n (h d) -> b h n d'\<close> with \<open>h\<close> given\<close>
  "rearrange_split_heads h s =
     (case s of
        [b, n, l] \<Rightarrow>
          (if h = 0 then Inl ZeroDivisionError
           else if l mod h \<noteq> 0 then Inl EinopsError
           else if \<not> fits_int64 h then Inl TypeError
           else if h < 0 then Inl RuntimeError
           else Inr [b, h, n, l div h])
      | _ \<Rightarrow> Inl EinopsError)"

definition rearrange_merge_heads :: "tshape \<Rightarrow> error + tshape" where
  \<comment> \<open>\<open>'b h n d -> b n (h d)'\<close>\<close>
  "rearrange_merge_heads s =
     (case s of
        [b, h, n, d] \<Rightarrow>
          (if \<not> fits_int64 (h * d) then Inl TypeError else Inr [b, n, h * d])
      | _ \<Rightarrow> Inl EinopsError)"

text \<open>The two \<open>einsum\<close> contractions of the source.\<close>

definition same_size :: "int \<Rightarrow> int \<Rightarrow> error + int" where
  "same_size x y =
     (if x = y \<or> y = 1 then Inr x else if x = 1 then Inr y else Inl RuntimeError)"

definition einsum_dots :: "tshape \<Rightarrow> tshape \<Rightarrow> error + tshape" where
  \<comment> \<open>\<open>'b h i d, b h j d -> b h i j'\<close>\<close>
  "einsum_dots q k =
     (case (q, k) of
        ([b, h, i, d], [b', h', j, d']) \<Rightarrow>
          then_do (same_size b b') (\<lambda>b''. then_do (same_size h h') (\<lambda>h''.
          then_do (same_size d d') (\<lambda>_. Inr [b'', h'', i, j])))
      | _ \<Rightarrow> Inl RuntimeError)"

definition einsum_out :: "tshape \<Rightarrow> tshape \<Rightarrow> error + tshape" where
  \<comment> \<open>\<open>'b h i j, b h j d -> b h i d'\<close>\<close>
  "einsum_out a v =
     (case (a, v) of
        ([b, h, i, j], [b', h', j', d]) \<Rightarrow>
          then_do (same_size b b') (\<lambda>b''. then_do (same_size h h') (\<lambda>h''.
          then_do (same_size j j') (\<lambda>_. Inr [b'', h'', i, d])))
      | _ \<Rightarrow> Inl RuntimeError)"

subsection \<open>\<open>FeedForward\<close>\<close>

record FeedForward =
  ff_in :: Linear
  ff_out :: Linear

definition FeedForward_init :: "int \<Rightarrow> int \<Rightarrow> real \<Rightarrow> error + FeedForward" where
  "FeedForward_init d hidden_dim dropout =
     then_do (Linear_init d hidden_dim) (\<lambda>l1.
     then_do (Dropout_init dropout) (\<lambda>_.
     then_do (Linear_init hidden_dim d) (\<lambda>l2.
     then_do (Dropout_init dropout) (\<lambda>_.
     Inr \<lparr> ff_in = l1, ff_out = l2 \<rparr>))))"

definition FeedForward_forward :: "FeedForward \<Rightarrow> tshape \<Rightarrow> error + tshape" where
  "FeedForward_forward f x =
     then_do (Linear_forward (ff_in f) x) (\<lambda>y. Linear_forward (ff_out f) y)"

subsection \<open>\<open>Attention\<close>\<close>

text \<open>\<open>to_out\<close> is \<open>None\<close> for \<open>nn.Identity()\<close>. \<open>dim_head ** -0.5\<close> raises
  \<open>ZeroDivisionError\<close> for \<open>dim_head = 0\<close> and \<open>OverflowError\<close> for a \<open>dim_head\<close>
  too large for a float; for a negative \<open>dim_head\<close> it is a complex number.\<close>

record Attention =
  heads :: int
  to_qkv :: Linear
  to_out :: "Linear option"

definition Attention_init :: "int \<Rightarrow> int \<Rightarrow> int \<Rightarrow> real \<Rightarrow> error + Attention" where
  "Attention_init d n_heads dim_head dropout =
     (let inner_dim = dim_head * n_heads;
          project_out = (\<not> (n_heads = 1 \<and> dim_head = d))
      in if dim_head = 0 then Inl ZeroDivisionError
         else if float_overflow dim_head then Inl OverflowError
         else
           then_do (Linear_init d (inner_dim * 3)) (\<lambda>qkv.
           if project_out then
             then_do (Linear_init inner_dim d) (\<lambda>out.
             then_do (Dropout_init dropout) (\<lambda>_.
             Inr \<lparr> heads = n_heads, to_qkv = qkv, to_out = Some out \<rparr>))
           else Inr \<lparr> heads = n_heads, to_qkv = qkv, to_out = None \<rparr>))"

text \<open>\<open>map\<close> over the chunks, stopping at the first exception.\<close>

fun map_err :: "('a \<Rightarrow> error + 'b) \<Rightarrow> 'a list \<Rightarrow> error + 'b list" where
  "map_err f [] = Inr []"
| "map_err f (x # xs) = then_do (f x) (\<lambda>y. then_do (map_err f xs) (\<lambda>ys. Inr (y # ys)))"

definition Attention_forward :: "Attention \<Rightarrow> tshape \<Rightarrow> error + tshape" where
  "Attention_forward a x =
     (case x of
        [b, n, _] \<Rightarrow>
          then_do (Linear_forward (to_qkv a) x) (\<lambda>y.
          then_do (chunk_last 3 y) (\<lambda>qkv.
          then_do (map_err (rearrange_split_heads (heads a)) qkv) (\<lambda>qkv'.
          (case qkv' of
             [q, k, v] \<Rightarrow>
               then_do (einsum_dots q k) (\<lambda>dots.
               then_do (einsum_out dots v) (\<lambda>out.
               then_do (rearrange_merge_heads out) (\<lambda>out'.
               (case to_out a of
                  None \<Rightarrow> Inr out'
                | Some l \<Rightarrow> Linear_forward l out'))))
           | _ \<Rightarrow> Inl ValueError))))
      | _ \<Rightarrow> Inl ValueError)"

subsection \<open>\<open>PreNorm\<close> and \<open>Transformer\<close>\<close>

datatype block = AttentionBlock Attention | FeedForwardBlock FeedForward

record PreNorm =
  pn_norm :: int
  pn_fn :: block

definition PreNorm_init :: "int \<Rightarrow> block \<Rightarrow> error + PreNorm" where
  "PreNorm_init d fn = then_do (LayerNorm_init d) (\<lambda>n. Inr \<lparr> pn_norm = n, pn_fn = fn \<rparr>)"

definition PreNorm_forward :: "PreNorm \<Rightarrow> tshape \<Rightarrow> error + tshape" where
  "PreNorm_forward p x =
     then_do (LayerNorm_forward (pn_norm p) x) (\<lambda>y.
       case pn_fn p of
         AttentionBlock a \<Rightarrow> Attention_forward a y
       | FeedForwardBlock f \<Rightarrow> FeedForward_forward f y)"

text \<open>\<open>for _ in range(depth)\<close>: one pair of blocks per layer, built in order.\<close>

fun build_layers ::
  "nat \<Rightarrow> int \<Rightarrow> int \<Rightarrow> int \<Rightarrow> int \<Rightarrow> real \<Rightarrow> error + (PreNorm \<times> PreNorm) list" where
  "build_layers 0 d n_heads dim_head mlp_dim dropout = Inr []"
| "build_layers (Suc k) d n_heads dim_head mlp_dim dropout =
     then_do (Attention_init d n_heads dim_head dropout) (\<lambda>a.
     then_do (PreNorm_init d (AttentionBlock a)) (\<lambda>pa.
     then_do (FeedForward_init d mlp_dim dropout) (\<lambda>f.
     then_do (PreNorm_init d (FeedForwardBlock f)) (\<lambda>pf.
     then_do (build_layers k d n_heads dim_head mlp_dim dropout) (\<lambda>rest.
     Inr ((pa, pf) # rest))))))"

definition Transformer_init ::
  "int \<Rightarrow> int \<Rightarrow> int \<Rightarrow> int \<Rightarrow> int \<Rightarrow> real \<Rightarrow> error + (PreNorm \<times> PreNorm) list" where
  "Transformer_init d depth n_heads dim_head mlp_dim dropout =
     build_layers (nat depth) d n_heads dim_head mlp_dim dropout"

fun Transformer_forward :: "(PreNorm \<times> PreNorm) list \<Rightarrow> tshape \<Rightarrow> error + tshape" where
  "Transformer_forward [] x = Inr x"
| "Transformer_forward ((attn, ff) # ls) x =
     then_do (PreNorm_forward attn x) (\<lambda>a.
     then_do (broadcast a x) (\<lambda>x1.
     then_do (PreNorm_forward ff x1) (\<lambda>f.
     then_do (broadcast f x1) (\<lambda>x2.
     Transformer_forward ls x2))))"

subsection \<open>\<open>ViT\<close>\<close>

definition accepted_pos_embeddings :: "string list" where
  "accepted_pos_embeddings = [''none'', ''global'', ''sin'', ''CPE'', ''learned'']"

text \<open>
  A positional embedding, were one ever installed, would be a module from shapes to
  shapes. \<open>unembed_sizes\<close> are the sizes \<open>pco, pz, py, px\<close> given to the last
  \<open>Rearrange\<close>.
\<close>

record ViT =
  embed_patch :: Linear
  pos_embedding :: "(tshape \<Rightarrow> error + tshape) option"
  transformer :: "(PreNorm \<times> PreNorm) list"
  unembed_patch :: Linear
  unembed_sizes :: "int \<times> int \<times> int \<times> int"

text \<open>
  The constructor, its keyword arguments in the order of the source. \<open>channels\<close> is
  accepted and never used. \<open>patch_dim_in\<close> and \<open>patch_dim_out\<close> are the numpy
  products, handed to \<open>nn.Linear\<close> as sizes.
\<close>

definition ViT_init ::
  "int list \<Rightarrow> int \<Rightarrow> int \<Rightarrow> int \<Rightarrow> int \<Rightarrow> int \<Rightarrow> int \<Rightarrow> string \<Rightarrow> int \<Rightarrow> int \<Rightarrow> real \<Rightarrow> real \<Rightarrow>
   error + ViT" where
  "ViT_init psz in_channels out_channels patch_emb_dim depth n_heads mlp_dim pos channels
       dim_head dropout emb_dropout =
     (if pos \<notin> set accepted_pos_embeddings then Inl AssertionError
      else
        case psz of
          [pz, py, px] \<Rightarrow>
            then_do (np_times (np_product psz) in_channels) (\<lambda>patch_dim_in.
            then_do (as_size patch_dim_in) (\<lambda>size_in.
            then_do (Linear_init size_in patch_emb_dim) (\<lambda>emb.
            let pe = None
            in then_do (Dropout_init emb_dropout) (\<lambda>_.
               then_do (Transformer_init patch_emb_dim depth n_heads dim_head mlp_dim dropout)
                 (\<lambda>tr.
               then_do (np_times (np_product psz) out_channels) (\<lambda>patch_dim_out.
               let pco = out_channels
               in then_do (as_size patch_dim_out) (\<lambda>size_out.
                  then_do (Linear_init patch_emb_dim size_out) (\<lambda>un.
                  Inr \<lparr> embed_patch = emb, pos_embedding = pe, transformer = tr,
                        unembed_patch = un, unembed_sizes = (pco, pz, py, px) \<rparr>))))))))
        | _ \<Rightarrow> Inl ValueError)"

text \<open>
  \<open>forward\<close>. The in-place \<open>x += self.pos_embedding(x)\<close> needs the sum to have the
  shape of \<open>x\<close>.
\<close>

definition ViT_forward :: "ViT \<Rightarrow> tshape \<Rightarrow> error + tshape" where
  "ViT_forward v img =
     then_do (rearrange_flatten_patch img) (\<lambda>x0.
     then_do (Linear_forward (embed_patch v) x0) (\<lambda>x.
     then_do (case pos_embedding v of
                None \<Rightarrow> Inr x
              | Some pe \<Rightarrow>
                  then_do (pe x) (\<lambda>e.
                  then_do (broadcast x e) (\<lambda>s.
                  if s = x then Inr x else Inl RuntimeError))) (\<lambda>x1.
     then_do (Transformer_forward (transformer v) x1) (\<lambda>x2.
     then_do (Linear_forward (unembed_patch v) x2) (\<lambda>x3.
     case unembed_sizes v of
       (pco, pz, py, px) \<Rightarrow> rearrange_unflatten_patch pco pz py px x3)))))"

section \<open>The spec's conditions and example inputs\<close>

text \<open>
  The condition the spec puts on \<open>patch_size\<close> (sections 6 and 8), in its words: a
  positive integer, or a 3-tuple of positive integers.
\<close>

definition spec_valid_patch_size :: "patch_size_arg \<Rightarrow> bool" where
  "spec_valid_patch_size a =
     (case a of
        PatchInt p \<Rightarrow> 0 < p
      | PatchTuple t \<Rightarrow> length t = 3 \<and> list_all (\<lambda>p. 0 < p) t)"

text \<open>
  Concrete inputs for the examples below: files that each hold one voxel, files that
  each hold a cube of \<open>3 \<times> 3 \<times> 3\<close> voxels, files that each hold a row of the
  intensities \<open>0\<close>, \<open>128\<close> and \<open>255\<close>, a pipeline without margins, a pipeline
  in which \<open>Perspective2D\<close> takes one voxel, respectively two voxels, from every face,
  and a generator whose draws are all \<open>0\<close>.
\<close>

definition one_voxel_files :: "string \<Rightarrow> string \<Rightarrow> error + int array3" where
  "one_voxel_files file path = Inr [[[0]]]"

definition cube3_files :: "string \<Rightarrow> string \<Rightarrow> error + int array3" where
  "cube3_files file path =
     Inr [[[0, 0, 0], [0, 0, 0], [0, 0, 0]],
          [[0, 0, 0], [0, 0, 0], [0, 0, 0]],
          [[0, 0, 0], [0, 0, 0], [0, 0, 0]]]"


definition no_shrink :: "transformation \<Rightarrow> int list" where
  "no_shrink t = [0, 0, 0, 0, 0, 0]"

definition shrink_one :: "transformation \<Rightarrow> int list" where
  "shrink_one t = (case t of Perspective2D \<Rightarrow> [1, 1, 1, 1, 1, 1] | _ \<Rightarrow> [0, 0, 0, 0, 0, 0])"

definition shrink_two :: "transformation \<Rightarrow> int list" where
  "shrink_two t = (case t of Perspective2D \<Rightarrow> [2, 2, 2, 2, 2, 2] | _ \<Rightarrow> [0, 0, 0, 0, 0, 0])"

definition zero_draws :: rng where
  "zero_draws i = 0"

section \<open>Properties of the dataset\<close>

subsection \<open>The loading loop and the constructor\<close>

lemma load_volumes_Inr:
  "load_volumes from_h5 psb fs vols h = Inr (vols', h') \<Longrightarrow>
     vols' = vols @ map (\<lambda>i. length h + i) [0..<length fs] \<and>
     length h' = length h + length fs \<and>
     take (length h) h' = h \<and>
     (\<forall>i<length fs. \<exists>raw lbl.
        from_h5 (fs ! i) ''volumes/raw'' = Inr raw \<and>
        from_h5 (fs ! i) ''volumes/labels/neuron_ids'' = Inr lbl \<and>
        h' ! (length h + i) =
          GroundTruthVolume_init (div_float32 (astype_float32 raw) 255) lbl psb)"
proof (induction fs arbitrary: vols h)
  case Nil
  then show ?case by simp
next
  case (Cons f fs)
  from Cons.prems obtain raw lbl where
    raw: "from_h5 f ''volumes/raw'' = Inr raw" and
    lbl: "from_h5 f ''volumes/labels/neuron_ids'' = Inr lbl" and
    rest: "load_volumes from_h5 psb fs (vols @ [length h])
             (h @ [GroundTruthVolume_init (div_float32 (astype_float32 raw) 255) lbl psb])
           = Inr (vols', h')"
    by (auto simp: alloc_def split: sum.splits)
  let ?v = "GroundTruthVolume_init (div_float32 (astype_float32 raw) 255) lbl psb"
  note IH = Cons.IH [OF rest]
  have len: "length h' = length h + length (f # fs)" using IH by simp
  have tk: "take (Suc (length h)) h' = h @ [?v]" using IH by simp
  have tk': "take (length h) h' = h"
  proof -
    have "take (length h) (take (Suc (length h)) h') = take (length h) (h @ [?v])"
      using tk by simp
    then show ?thesis by (simp add: min_def)
  qed
  have at: "h' ! length h = ?v"
  proof -
    have "take (Suc (length h)) h' ! length h = (h @ [?v]) ! length h" using tk by simp
    then show ?thesis by simp
  qed
  have vs: "vols' = vols @ map (\<lambda>i. length h + i) [0..<length (f # fs)]"
  proof -
    have "map (\<lambda>i. length h + i) [0..<Suc (length fs)]
          = length h # map (\<lambda>i. Suc (length h) + i) [0..<length fs]"
      by (simp add: upt_conv_Cons map_Suc_upt [symmetric] del: upt_Suc)
    then show ?thesis using IH by simp
  qed
  have each: "\<exists>raw lbl.
        from_h5 ((f # fs) ! i) ''volumes/raw'' = Inr raw \<and>
        from_h5 ((f # fs) ! i) ''volumes/labels/neuron_ids'' = Inr lbl \<and>
        h' ! (length h + i) =
          GroundTruthVolume_init (div_float32 (astype_float32 raw) 255) lbl psb"
    if "i < length (f # fs)" for i
  proof (cases i)
    case 0
    then show ?thesis using raw lbl at by simp
  next
    case (Suc j)
    then have "j < length fs" using that by simp
    then show ?thesis using IH Suc by simp
  qed
  show ?case using vs len tk' each by blast
qed

lemma load_volumes_total:
  "(\<forall>f \<in> set fs. \<exists>raw lbl. from_h5 f ''volumes/raw'' = Inr raw \<and>
        from_h5 f ''volumes/labels/neuron_ids'' = Inr lbl) \<Longrightarrow>
   \<exists>r. load_volumes from_h5 psb fs vols h = Inr r"
  by (induction fs arbitrary: vols h) (auto simp: alloc_def)

lemma load_volumes_Inl:
  "load_volumes from_h5 psb fs vols h = Inl e \<Longrightarrow>
   \<exists>f \<in> set fs. from_h5 f ''volumes/raw'' = Inl e \<or> from_h5 f ''volumes/labels/neuron_ids'' = Inl e"
  by (induction fs arbitrary: vols h) (auto simp: alloc_def split: sum.splits)

lemma CremiDataset_init_Inr:
  assumes "CremiDataset_init from_h5 shrink_of h r psa = Inr (d, h')"
  shows "1 / 2 < r \<and> r < 1"
    and "d = \<lparr> transform = prepare_transform shrink_of,
              patch_size = (case psa of PatchInt p \<Rightarrow> [p, p, p] | PatchTuple t \<Rightarrow> t),
              training_volumes = [length h + 1, length h + 2],
              validation_volumes = [length h] \<rparr>"
    and "length h' = length h + 3"
    and "take (length h) h' = h"
    and "\<forall>i<3. \<exists>raw lbl.
        from_h5 (files ! i) ''volumes/raw'' = Inr raw \<and>
        from_h5 (files ! i) ''volumes/labels/neuron_ids'' = Inr lbl \<and>
        h' ! (length h + i) =
          GroundTruthVolume_init (div_float32 (astype_float32 raw) 255) lbl
            (patch_size_before_transform
               (case psa of PatchInt p \<Rightarrow> [p, p, p] | PatchTuple t \<Rightarrow> t)
               (shrink_size (prepare_transform shrink_of)))"
proof -
  let ?ps = "case psa of PatchInt p \<Rightarrow> [p, p, p] | PatchTuple t \<Rightarrow> t"
  let ?psb = "patch_size_before_transform ?ps (shrink_size (prepare_transform shrink_of))"
  show r: "1 / 2 < r \<and> r < 1"
    using assms by (auto simp: CremiDataset_init_def split: if_splits)
  from assms r obtain vols where
    lv: "load_volumes from_h5 ?psb files [] h = Inr (vols, h')"
    by (auto simp: CremiDataset_init_def Let_def split: sum.splits list.splits)
  note L = load_volumes_Inr [OF lv]
  have lf: "length files = 3" by (simp add: files_def)
  have vols: "vols = [length h, length h + 1, length h + 2]"
    using L lf by (simp add: upt_conv_Cons numeral_3_eq_3 del: upt_Suc)
  show "d = \<lparr> transform = prepare_transform shrink_of, patch_size = ?ps,
              training_volumes = [length h + 1, length h + 2],
              validation_volumes = [length h] \<rparr>"
    using assms r lv vols by (simp add: CremiDataset_init_def Let_def)
  show "length h' = length h + 3" using L lf by simp
  show "take (length h) h' = h" using L by simp
  show "\<forall>i<3. \<exists>raw lbl.
        from_h5 (files ! i) ''volumes/raw'' = Inr raw \<and>
        from_h5 (files ! i) ''volumes/labels/neuron_ids'' = Inr lbl \<and>
        h' ! (length h + i) =
          GroundTruthVolume_init (div_float32 (astype_float32 raw) 255) lbl ?psb"
    using L lf by simp
qed

lemma CremiDataset_init_total:
  assumes "1 / 2 < r" "r < 1"
    and "\<forall>f \<in> set files. \<exists>raw lbl. from_h5 f ''volumes/raw'' = Inr raw \<and>
           from_h5 f ''volumes/labels/neuron_ids'' = Inr lbl"
  shows "\<exists>d h'. CremiDataset_init from_h5 shrink_of h r psa = Inr (d, h')"
proof -
  let ?ps = "case psa of PatchInt p \<Rightarrow> [p, p, p] | PatchTuple t \<Rightarrow> t"
  let ?psb = "patch_size_before_transform ?ps (shrink_size (prepare_transform shrink_of))"
  obtain vols h' where lv: "load_volumes from_h5 ?psb files [] h = Inr (vols, h')"
    using load_volumes_total [OF assms(3)] by (metis surj_pair)
  have "vols = [] @ map (\<lambda>i. length h + i) [0..<length files]"
    using load_volumes_Inr [OF lv] by simp
  then have "vols \<noteq> []" by (simp add: files_def)
  then obtain v0 vs where "vols = v0 # vs" by (cases vols) auto
  then show ?thesis using assms(1,2) lv by (simp add: CremiDataset_init_def Let_def)
qed

lemma patch_size_before_transform_3_6:
  assumes "length ps = 3" "length ss = 6"
  shows "patch_size_before_transform ps ss =
           [ps ! 0 + ss ! 0 + ss ! 3, ps ! 1 + ss ! 1 + ss ! 4, ps ! 2 + ss ! 2 + ss ! 5]"
proof -
  obtain p0 p1 p2 where ps: "ps = [p0, p1, p2]"
    using assms(1) by (auto simp: length_Suc_conv numeral_3_eq_3)
  obtain s0 s1 s2 s3 s4 s5 where ss: "ss = [s0, s1, s2, s3, s4, s5]"
    using assms(2) by (auto simp: length_Suc_conv eval_nat_numeral)
  show ?thesis by (simp add: ps ss patch_size_before_transform_def)
qed

lemma sample_from_Inr:
  assumes "sample_from C d h vols g = Inr (p, g')"
  shows "\<exists>r g1 v p0 g2 p1.
           random_choice vols g = Inr (r, g1) \<and> deref h r = Inr v \<and>
           random_patch C v g1 = Inr (p0, g2) \<and>
           transform_call C (transform d) p0 g2 = Inr (p1, g') \<and>
           apply_delayed_shrink_size C p1 = Inr p"
  using assms by (auto simp: sample_from_def split: sum.splits)

text \<open>Evaluation of the example inputs.\<close>

lemma to_float32_0: "to_float32 0 = 0"
  by (simp add: to_float32_def)

lemmas dataset_eval =
  CremiDataset_init_def files_def alloc_def Let_def one_voxel_files_def cube3_files_def
  prepare_transform_def Compose_init_def shrink_one_def no_shrink_def shrink_two_def
  patch_size_before_transform_def GroundTruthVolume_init_def astype_float32_def
  div_float32_def map_array3_def to_float32_0

lemmas sampling_eval =
  random_training_patch_def random_validation_patch_def sample_from_def random_choice_def
  deref_def last3_def zero_draws_def spec_collaborators_def spec_random_patch_def
  spec_transform_call_def spec_apply_delayed_shrink_size_def shape3_def

lemma cube3_dataset:
  "CremiDataset_init cube3_files shrink_one [] (9 / 10) (PatchTuple [1, 1, 1]) =
     Inr (\<lparr> transform = prepare_transform shrink_one, patch_size = [1, 1, 1],
             training_volumes = [1, 2], validation_volumes = [0] \<rparr>,
          replicate 3
            \<lparr> gt_image = [[[0, 0, 0], [0, 0, 0], [0, 0, 0]],
                       [[0, 0, 0], [0, 0, 0], [0, 0, 0]],
                       [[0, 0, 0], [0, 0, 0], [0, 0, 0]]],
              gt_label = [[[0, 0, 0], [0, 0, 0], [0, 0, 0]],
                       [[0, 0, 0], [0, 0, 0], [0, 0, 0]],
                       [[0, 0, 0], [0, 0, 0], [0, 0, 0]]],
              gt_patch_size = [3, 3, 3] \<rparr>)"
  by (simp add: dataset_eval numeral_3_eq_3)

subsection \<open>The patch size handed to the volumes\<close>

text \<open>
  Claim C1. For a patch size of three entries and a pipeline whose total shrink has six
  entries, construction allocates exactly three volumes, and every one of them is given
  the patch size \<open>patch_size[i] + shrink_size[i] + shrink_size[i + 3]\<close> on each axis
  \<open>i\<close>: the requested size plus the low and the high margin of the pipeline.
\<close>

theorem volumes_get_patch_size_before_transform:
  assumes "length ps = 3"
    and "length (shrink_size (prepare_transform shrink_of)) = 6"
    and "CremiDataset_init from_h5 shrink_of h r (PatchTuple ps) = Inr (d, h')"
  shows "length h' = length h + 3 \<and>
         (\<forall>i. length h \<le> i \<and> i < length h' \<longrightarrow>
            gt_patch_size (h' ! i) =
              [ps ! 0 + shrink_size (transform d) ! 0 + shrink_size (transform d) ! 3,
               ps ! 1 + shrink_size (transform d) ! 1 + shrink_size (transform d) ! 4,
               ps ! 2 + shrink_size (transform d) ! 2 + shrink_size (transform d) ! 5])"
proof -
  note I = CremiDataset_init_Inr [OF assms(3)]
  have tr: "transform d = prepare_transform shrink_of" using I(2) by simp
  have len: "length h' = length h + 3" by (rule I(3))
  have "gt_patch_size (h' ! i) =
          patch_size_before_transform ps (shrink_size (prepare_transform shrink_of))"
    if "length h \<le> i" "i < length h'" for i
  proof -
    from that len obtain j where j: "i = length h + j" "j < 3"
      by (metis add_less_cancel_left le_Suc_ex)
    then show ?thesis using I(5) by (auto simp: GroundTruthVolume_init_def)
  qed
  then show ?thesis
    using len tr patch_size_before_transform_3_6 [OF assms(1,2)] by simp
qed

text \<open>
  The scenario of the spec: patch size \<open>(8, 8, 8)\<close> and a total shrink of
  \<open>(2, 2, 2, 2, 2, 2)\<close> give every volume the raw patch size \<open>(12, 12, 12)\<close>.
\<close>

theorem volumes_get_patch_size_before_transform_witness:
  "map_sum id (\<lambda>(d, h'). (shrink_size (transform d), map gt_patch_size h'))
     (CremiDataset_init one_voxel_files shrink_two [] (9 / 10) (PatchTuple [8, 8, 8]))
   = Inr ([2, 2, 2, 2, 2, 2], [[12, 12, 12], [12, 12, 12], [12, 12, 12]])"
proof -
  let ?run = "CremiDataset_init one_voxel_files shrink_two [] (9 / 10) (PatchTuple [8, 8, 8])"
  have ss: "shrink_size (prepare_transform shrink_two) = [2, 2, 2, 2, 2, 2]"
    by (simp add: prepare_transform_def Compose_init_def shrink_two_def)
  obtain d h' where run: "?run = Inr (d, h')"
    by (simp add: CremiDataset_init_def files_def alloc_def Let_def one_voxel_files_def)
  have tr: "shrink_size (transform d) = [2, 2, 2, 2, 2, 2]"
    using CremiDataset_init_Inr(2) [OF run] ss by simp
  have "length [8, 8, 8 :: int] = 3" by simp
  moreover have "length (shrink_size (prepare_transform shrink_two)) = 6" using ss by simp
  ultimately have c: "length h' = length ([] :: store) + 3 \<and>
         (\<forall>i. length ([] :: store) \<le> i \<and> i < length h' \<longrightarrow>
            gt_patch_size (h' ! i) =
              [[8, 8, 8] ! 0 + shrink_size (transform d) ! 0 + shrink_size (transform d) ! 3,
               [8, 8, 8] ! 1 + shrink_size (transform d) ! 1 + shrink_size (transform d) ! 4,
               [8, 8, 8] ! 2 + shrink_size (transform d) ! 2 + shrink_size (transform d) ! 5])"
    using volumes_get_patch_size_before_transform [OF _ _ run] by blast
  then have "length h' = 3" by simp
  then obtain a b c' where h': "h' = [a, b, c']"
    by (auto simp: length_Suc_conv numeral_3_eq_3)
  have "gt_patch_size (h' ! 0) = [12, 12, 12]" "gt_patch_size (h' ! 1) = [12, 12, 12]"
    "gt_patch_size (h' ! 2) = [12, 12, 12]"
    using c tr by (simp_all add: h' All_less_Suc)
  then show ?thesis using run tr by (simp add: h')
qed


subsection \<open>Validation of the constructor arguments\<close>

text \<open>
  Claim C3 as stated fails: with a ratio of \<open>0.9\<close> and the patch size \<open>0\<close>, which is
  not a positive integer, construction succeeds. The constructor never looks at the
  values in \<open>patch_size\<close>.
\<close>

theorem construction_accepts_nonpositive_patch_size:
  "\<not> (\<not> isl (CremiDataset_init one_voxel_files no_shrink [] (9 / 10) (PatchInt 0))
       \<longleftrightarrow> (1 / 2 < (9 / 10 :: real) \<and> (9 / 10 :: real) < 1 \<and> spec_valid_patch_size (PatchInt 0)))"
  by (simp add: CremiDataset_init_def files_def alloc_def Let_def one_voxel_files_def
      spec_valid_patch_size_def)

text \<open>
  Claim C3, amended. Provided the three files can be read, construction succeeds if and
  only if \<open>training_split_ratio\<close> lies in the open interval \<open>(0.5, 1)\<close>, whatever
  \<open>patch_size\<close> is; a ratio outside the interval raises \<open>AssertionError\<close>; and the
  dataset keeps a tuple \<open>patch_size\<close> as given and an integer \<open>p\<close> as \<open>(p, p, p)\<close>.
\<close>

theorem construction_succeeds_iff_ratio_in_range:
  assumes "\<forall>f \<in> set files. \<exists>raw lbl. from_h5 f ''volumes/raw'' = Inr raw \<and>
           from_h5 f ''volumes/labels/neuron_ids'' = Inr lbl"
  shows "((\<exists>d h'. CremiDataset_init from_h5 shrink_of h r psa = Inr (d, h')) \<longleftrightarrow> 1 / 2 < r \<and> r < 1)
       \<and> (\<not> (1 / 2 < r \<and> r < 1) \<longrightarrow>
            CremiDataset_init from_h5 shrink_of h r psa = Inl AssertionError)
       \<and> (\<forall>d h'. CremiDataset_init from_h5 shrink_of h r psa = Inr (d, h') \<longrightarrow>
            patch_size d = (case psa of PatchInt p \<Rightarrow> [p, p, p] | PatchTuple t \<Rightarrow> t))"
proof (intro conjI)
  show "(\<exists>d h'. CremiDataset_init from_h5 shrink_of h r psa = Inr (d, h')) \<longleftrightarrow> 1 / 2 < r \<and> r < 1"
    using CremiDataset_init_Inr(1) CremiDataset_init_total [OF _ _ assms] by blast
  show "\<not> (1 / 2 < r \<and> r < 1) \<longrightarrow>
            CremiDataset_init from_h5 shrink_of h r psa = Inl AssertionError"
    by (auto simp: CremiDataset_init_def)
  show "\<forall>d h'. CremiDataset_init from_h5 shrink_of h r psa = Inr (d, h') \<longrightarrow>
            patch_size d = (case psa of PatchInt p \<Rightarrow> [p, p, p] | PatchTuple t \<Rightarrow> t)"
    using CremiDataset_init_Inr(2) by fastforce
qed

text \<open>
  With readable files: ratio \<open>0.9\<close> and patch size \<open>5\<close> give a dataset of patch size
  \<open>(5, 5, 5)\<close>; the ratios \<open>0.5\<close> and \<open>1\<close> are rejected.
\<close>

theorem construction_succeeds_iff_ratio_in_range_witness:
  "map_sum id (\<lambda>(d, h'). patch_size d)
     (CremiDataset_init one_voxel_files no_shrink [] (9 / 10) (PatchInt 5)) = Inr [5, 5, 5]
   \<and> CremiDataset_init one_voxel_files no_shrink [] (1 / 2) (PatchInt 5) = Inl AssertionError
   \<and> CremiDataset_init one_voxel_files no_shrink [] 1 (PatchInt 5) = Inl AssertionError"
proof -
  have files: "\<forall>f \<in> set files. \<exists>raw lbl. one_voxel_files f ''volumes/raw'' = Inr raw \<and>
           one_voxel_files f ''volumes/labels/neuron_ids'' = Inr lbl"
    by (simp add: one_voxel_files_def)
  note a = construction_succeeds_iff_ratio_in_range [OF files, of no_shrink "[]" "9 / 10" "PatchInt 5"]
  note b = construction_succeeds_iff_ratio_in_range [OF files, of no_shrink "[]" "1 / 2" "PatchInt 5"]
  note c = construction_succeeds_iff_ratio_in_range [OF files, of no_shrink "[]" "1" "PatchInt 5"]
  from a obtain d h' where run:
    "CremiDataset_init one_voxel_files no_shrink [] (9 / 10) (PatchInt 5) = Inr (d, h')"
    by auto
  with a have "patch_size d = [5, 5, 5]" by simp
  with run b c show ?thesis by simp
qed

subsection \<open>The split into validation and training volumes\<close>

text \<open>
  Claim C4. After construction the store holds three new volume objects, in the order of
  the files they were read from; the validation list is the reference to the first of
  them, the training list the references to the other two, in load order; no reference
  is in both lists.
\<close>

theorem first_volume_validates_rest_train:
  assumes "CremiDataset_init from_h5 shrink_of h r psa = Inr (d, h')"
  shows "validation_volumes d = [length h]
       \<and> training_volumes d = [length h + 1, length h + 2]
       \<and> length h' = length h + 3
       \<and> take (length h) h' = h
       \<and> (\<forall>i<3. \<exists>raw lbl.
            from_h5 (files ! i) ''volumes/raw'' = Inr raw \<and>
            from_h5 (files ! i) ''volumes/labels/neuron_ids'' = Inr lbl \<and>
            gt_image (h' ! (length h + i)) = div_float32 (astype_float32 raw) 255 \<and>
            gt_label (h' ! (length h + i)) = lbl)
       \<and> set (validation_volumes d) \<inter> set (training_volumes d) = {}
       \<and> distinct (validation_volumes d @ training_volumes d)"
proof -
  note I = CremiDataset_init_Inr [OF assms]
  have "\<forall>i<3. \<exists>raw lbl.
            from_h5 (files ! i) ''volumes/raw'' = Inr raw \<and>
            from_h5 (files ! i) ''volumes/labels/neuron_ids'' = Inr lbl \<and>
            gt_image (h' ! (length h + i)) = div_float32 (astype_float32 raw) 255 \<and>
            gt_label (h' ! (length h + i)) = lbl"
    using I(5) by (fastforce simp: GroundTruthVolume_init_def)
  then show ?thesis using I(2,3,4) by simp
qed

text \<open>From an empty store: validation is object \<open>0\<close>, training objects \<open>1\<close> and \<open>2\<close>.\<close>

theorem first_volume_validates_rest_train_witness:
  "map_sum id (\<lambda>(d, h'). (validation_volumes d, training_volumes d, length h'))
     (CremiDataset_init one_voxel_files no_shrink [] (9 / 10) (PatchInt 5))
   = Inr ([0], [1, 2], 3)"
proof -
  obtain d h' where run:
    "CremiDataset_init one_voxel_files no_shrink [] (9 / 10) (PatchInt 5) = Inr (d, h')"
    by (simp add: CremiDataset_init_def files_def alloc_def Let_def one_voxel_files_def)
  show ?thesis using first_volume_validates_rest_train [OF run] run by simp
qed

subsection \<open>The split ratio\<close>

text \<open>
  Claim C9. Two ratios inside \<open>(0.5, 1)\<close> give the same result of construction, dataset
  and store alike: the ratio is neither stored nor used after the two assertions.
\<close>

theorem training_split_ratio_not_used:
  assumes "1 / 2 < r1" "r1 < 1" "1 / 2 < r2" "r2 < 1"
  shows "CremiDataset_init from_h5 shrink_of h r1 psa = CremiDataset_init from_h5 shrink_of h r2 psa"
  using assms by (simp add: CremiDataset_init_def)

text \<open>The ratios \<open>0.6\<close> and \<open>0.99\<close>.\<close>

theorem training_split_ratio_not_used_witness:
  "(1 / 2 < (6 / 10 :: real) \<and> (6 / 10 :: real) < 1 \<and> 1 / 2 < (99 / 100 :: real) \<and> (99 / 100 :: real) < 1)
   \<and> CremiDataset_init cube3_files shrink_one [] (6 / 10) (PatchInt 1)
     = CremiDataset_init cube3_files shrink_one [] (99 / 100) (PatchInt 1)"
proof -
  have h: "1 / 2 < (6 / 10 :: real)" "(6 / 10 :: real) < 1" "1 / 2 < (99 / 100 :: real)"
    "(99 / 100 :: real) < 1" by simp_all
  show ?thesis using training_split_ratio_not_used [OF h, of cube3_files shrink_one "[]" "PatchInt 1"] h by simp
qed

subsection \<open>The sampling entry points\<close>

text \<open>
  Claim C6. Whenever \<open>random_training_patch\<close> returns a patch, whatever the
  collaborators do, the last three entries of the shape of that patch are the
  \<open>patch_size\<close> of the dataset.
\<close>

theorem training_patch_has_patch_size:
  assumes "random_training_patch C d h g = Inr (p, g')"
  shows "last3 (shape C p) = patch_size d"
  using assms by (auto simp: random_training_patch_def split: sum.splits if_splits)

text \<open>
  A run that returns: patch size \<open>(1, 1, 1)\<close>, one voxel of margin on every face,
  volumes of \<open>3 \<times> 3 \<times> 3\<close> voxels.
\<close>

theorem training_patch_has_patch_size_witness:
  "map_sum id (\<lambda>(d, h).
      map_sum id (\<lambda>(p, g). (last3 (patch_shape p), patch_size d))
        (random_training_patch (spec_collaborators shrink_one) d h zero_draws))
     (CremiDataset_init cube3_files shrink_one [] (9 / 10) (PatchTuple [1, 1, 1]))
   = Inr (Inr ([1, 1, 1], [1, 1, 1]))"
proof -
  let ?C = "spec_collaborators shrink_one"
  obtain d h where run:
    "CremiDataset_init cube3_files shrink_one [] (9 / 10) (PatchTuple [1, 1, 1]) = Inr (d, h)"
    and d: "patch_size d = [1, 1, 1]"
    by (simp add: cube3_dataset)
  obtain p g where smp: "random_training_patch ?C d h zero_draws = Inr (p, g)"
    using run unfolding cube3_dataset
    by (auto simp: sampling_eval prepare_transform_def Compose_init_def shrink_one_def numeral_3_eq_3)
  have "last3 (shape ?C p) = patch_size d" by (rule training_patch_has_patch_size [OF smp])
  then have "last3 (patch_shape p) = [1, 1, 1]" using d by (simp add: spec_collaborators_def)
  then show ?thesis using run smp d by simp
qed

text \<open>
  Claim C5. The pipeline built by construction lists the six intensity and noise
  transformations first and the geometric ones after them, \<open>Flip\<close> and \<open>Transpose\<close>
  following \<open>Perspective2D\<close>. A patch returned by either entry point is the result of
  three stages in order: a patch drawn from the chosen volume, that patch run through
  the pipeline of the dataset (on the generator state the draw left), and the result
  cropped by \<open>apply_delayed_shrink_size\<close>.
\<close>

theorem sampling_runs_three_stages_in_order:
  assumes "CremiDataset_init from_h5 shrink_of h r psa = Inr (d, h')"
  shows "transforms (transform d) =
           [NormalizeTo01 1, AdjustBrightness, AdjustContrast, Gamma,
            OneOf [Noise, GaussianBlur2D], BlackBox]
           @ [Perspective2D, Flip, Transpose, MissAlignment]
       \<and> (\<forall>hs g p g'. random_training_patch C d hs g = Inr (p, g') \<longrightarrow>
            (\<exists>r g1 v p0 g2 p1.
               random_choice (training_volumes d) g = Inr (r, g1) \<and> deref hs r = Inr v \<and>
               random_patch C v g1 = Inr (p0, g2) \<and>
               transform_call C (transform d) p0 g2 = Inr (p1, g') \<and>
               apply_delayed_shrink_size C p1 = Inr p))
       \<and> (\<forall>hs g p g'. random_validation_patch C d hs g = Inr (p, g') \<longrightarrow>
            (\<exists>r g1 v p0 g2 p1.
               random_choice (validation_volumes d) g = Inr (r, g1) \<and> deref hs r = Inr v \<and>
               random_patch C v g1 = Inr (p0, g2) \<and>
               transform_call C (transform d) p0 g2 = Inr (p1, g') \<and>
               apply_delayed_shrink_size C p1 = Inr p))"
proof (intro conjI allI impI)
  show "transforms (transform d) =
           [NormalizeTo01 1, AdjustBrightness, AdjustContrast, Gamma,
            OneOf [Noise, GaussianBlur2D], BlackBox]
           @ [Perspective2D, Flip, Transpose, MissAlignment]"
    using CremiDataset_init_Inr(2) [OF assms]
    by (simp add: prepare_transform_def Compose_init_def)
next
  fix hs g p g'
  assume "random_training_patch C d hs g = Inr (p, g')"
  then have "sample_from C d hs (training_volumes d) g = Inr (p, g')"
    by (auto simp: random_training_patch_def split: sum.splits if_splits)
  then show "\<exists>r g1 v p0 g2 p1.
               random_choice (training_volumes d) g = Inr (r, g1) \<and> deref hs r = Inr v \<and>
               random_patch C v g1 = Inr (p0, g2) \<and>
               transform_call C (transform d) p0 g2 = Inr (p1, g') \<and>
               apply_delayed_shrink_size C p1 = Inr p"
    by (rule sample_from_Inr)
next
  fix hs g p g'
  assume "random_validation_patch C d hs g = Inr (p, g')"
  then have "sample_from C d hs (validation_volumes d) g = Inr (p, g')"
    by (simp add: random_validation_patch_def)
  then show "\<exists>r g1 v p0 g2 p1.
               random_choice (validation_volumes d) g = Inr (r, g1) \<and> deref hs r = Inr v \<and>
               random_patch C v g1 = Inr (p0, g2) \<and>
               transform_call C (transform d) p0 g2 = Inr (p1, g') \<and>
               apply_delayed_shrink_size C p1 = Inr p"
    by (rule sample_from_Inr)
qed

text \<open>Both entry points return on the dataset of the previous example.\<close>

theorem sampling_runs_three_stages_in_order_witness:
  "map_sum id (\<lambda>(d, h).
      (transforms (transform d),
       map_sum id (\<lambda>(p, g). patch_shape p)
         (random_training_patch (spec_collaborators shrink_one) d h zero_draws),
       map_sum id (\<lambda>(p, g). patch_shape p)
         (random_validation_patch (spec_collaborators shrink_one) d h zero_draws)))
     (CremiDataset_init cube3_files shrink_one [] (9 / 10) (PatchTuple [1, 1, 1]))
   = Inr ([NormalizeTo01 1, AdjustBrightness, AdjustContrast, Gamma,
           OneOf [Noise, GaussianBlur2D], BlackBox, Perspective2D, Flip, Transpose,
           MissAlignment],
          Inr [1, 1, 1, 1, 1], Inr [1, 1, 1, 1, 1])"
proof -
  let ?C = "spec_collaborators shrink_one"
  obtain d h where run:
    "CremiDataset_init cube3_files shrink_one [] (9 / 10) (PatchTuple [1, 1, 1]) = Inr (d, h)"
    by (simp add: cube3_dataset)
  note c = sampling_runs_three_stages_in_order [OF run, of ?C]
  have t: "map_sum id (\<lambda>(p, g). patch_shape p) (random_training_patch ?C d h zero_draws)
             = Inr [1, 1, 1, 1, 1]"
    using run unfolding cube3_dataset
    by (auto simp: sampling_eval prepare_transform_def Compose_init_def shrink_one_def numeral_3_eq_3)
  have v: "map_sum id (\<lambda>(p, g). patch_shape p) (random_validation_patch ?C d h zero_draws)
             = Inr [1, 1, 1, 1, 1]"
    using run unfolding cube3_dataset
    by (auto simp: sampling_eval prepare_transform_def Compose_init_def shrink_one_def numeral_3_eq_3)
  show ?thesis using c t v run by simp
qed

text \<open>
  Claim C2 does not hold for \<open>random_validation_patch\<close>, which has no assertion. For
  the patch size \<open>(1, 1, 1, 1)\<close>, which construction accepts, the collaborators of the
  spec produce a patch of spatial shape \<open>(1, 1, 1)\<close>: \<open>random_validation_patch\<close>
  returns it although it differs from \<open>patch_size\<close>, while \<open>random_training_patch\<close>
  on the same dataset raises \<open>AssertionError\<close>.
\<close>

theorem validation_patch_shape_unchecked:
  "map_sum id (\<lambda>(d, h).
      (patch_size d,
       map_sum id (\<lambda>(p, g). last3 (patch_shape p))
         (random_validation_patch (spec_collaborators no_shrink) d h zero_draws),
       map_sum id (\<lambda>(p, g). last3 (patch_shape p))
         (random_training_patch (spec_collaborators no_shrink) d h zero_draws)))
     (CremiDataset_init one_voxel_files no_shrink [] (9 / 10) (PatchTuple [1, 1, 1, 1]))
   = Inr ([1, 1, 1, 1], Inr [1, 1, 1], Inl AssertionError)"
  by (simp add: dataset_eval sampling_eval)

subsection \<open>Normalisation of the images\<close>
















section \<open>Properties of the model\<close>

subsection \<open>Shapes through the modules\<close>

lemma then_do_Inr [simp]: "then_do (Inr x) f = f x"
  by (simp add: then_do_def)

lemma then_do_Inl [simp]: "then_do (Inl e) f = Inl e"
  by (simp add: then_do_def)

lemma then_do_eq_Inr:
  "then_do r f = Inr y \<longleftrightarrow> (\<exists>x. r = Inr x \<and> f x = Inr y)"
  by (cases r) simp_all

lemma broadcast_rev_same: "broadcast_rev xs xs = Inr xs"
  by (induction xs) simp_all

lemma broadcast_same: "broadcast s s = Inr s"
  by (simp add: broadcast_def broadcast_rev_same)

lemma int64_id: "fits_int64 x \<Longrightarrow> int64 x = x"
  by (simp add: int64_def fits_int64_def)

lemma wrap_cong: "((a + k) mod m - k) mod m = a mod (m :: int)"
  by (simp add: mod_diff_left_eq)

lemma wrap_mult_cong: "(((a + k) mod m - k) * c + k) mod m = (a * c + k) mod (m :: int)"
  by (metis wrap_cong mod_mult_left_eq mod_add_left_eq)

lemma int64_mult_wrap: "int64 (int64 a * c) = int64 (a * c)"
  unfolding int64_def by (simp only: wrap_mult_cong)

lemma patch_dim_size:
  assumes "list_all fits_int64 [pz, py, px]" "fits_int64 c" "fits_int64 (pz * py * px * c)"
  shows "then_do (np_times (np_product [pz, py, px]) c) as_size = Inr (pz * py * px * c)"
proof -
  have "np_product [pz, py, px] = NpInt64 (int64 (pz * py * px))"
    using assms(1) by (simp add: np_product_def mult.assoc)
  then have "np_times (np_product [pz, py, px]) c = Inr (NpInt64 (int64 (int64 (pz * py * px) * c)))"
    using assms(2) by (simp add: np_times_def)
  then show ?thesis
    using assms(3) by (simp add: as_size_def int64_mult_wrap int64_id)
qed

lemma chunk_last_3:
  assumes "0 < m"
  shows "chunk_last 3 [b, n, m * 3] = Inr [[b, n, m], [b, n, m], [b, n, m]]"
proof -
  have "(m * 3 + 3 - 1) div 3 = m" by simp
  moreover have "m * 3 div m = 3" using assms by simp
  ultimately show ?thesis using assms
    by (simp add: chunk_last_def Let_def numeral_3_eq_3)
qed

lemma split_heads:
  assumes "0 < h" "fits_int64 h"
  shows "rearrange_split_heads h [b, n, dh * h] = Inr [b, h, n, dh]"
  using assms by (simp add: rearrange_split_heads_def)

lemma Linear_init_Inr:
  "Linear_init i out = Inr l \<Longrightarrow>
     l = \<lparr> in_features = i, out_features = out \<rparr> \<and> fits_int64 i \<and> fits_int64 out \<and> 0 \<le> i \<and> 0 \<le> out"
  by (auto simp: Linear_init_def split: if_splits)

lemma Attention_forward_record:
  assumes "0 < nh" "0 < dh" "fits_int64 (dh * nh)"
  shows "Attention_forward
           \<lparr> heads = nh, to_qkv = \<lparr> in_features = d, out_features = dh * nh * 3 \<rparr>, to_out = out \<rparr>
           [b, n, d]
         = (case out of None \<Rightarrow> Inr [b, n, nh * dh] | Some l \<Rightarrow> Linear_forward l [b, n, nh * dh])"
proof -
  have inner: "0 < dh * nh" using assms by simp
  have "nh * 1 \<le> nh * dh" using assms(1,2) by (intro mult_left_mono) simp_all
  then have "nh \<le> dh * nh" by (simp add: mult.commute)
  then have fnh: "fits_int64 nh" using assms(1,3) unfolding fits_int64_def by linarith
  have fm: "fits_int64 (nh * dh)" using assms(3) by (simp add: mult.commute)
  have ch: "chunk_last 3 [b, n, dh * nh * 3]
              = Inr [[b, n, dh * nh], [b, n, dh * nh], [b, n, dh * nh]]"
    by (rule chunk_last_3 [OF inner])
  have sp: "map_err (rearrange_split_heads nh) [[b, n, dh * nh], [b, n, dh * nh], [b, n, dh * nh]]
              = Inr [[b, nh, n, dh], [b, nh, n, dh], [b, nh, n, dh]]"
    by (simp add: split_heads [OF assms(1) fnh])
  have dots: "einsum_dots [b, nh, n, dh] [b, nh, n, dh] = Inr [b, nh, n, n]"
    by (simp add: einsum_dots_def same_size_def)
  have out: "einsum_out [b, nh, n, n] [b, nh, n, dh] = Inr [b, nh, n, dh]"
    by (simp add: einsum_out_def same_size_def)
  have mg: "rearrange_merge_heads [b, nh, n, dh] = Inr [b, n, nh * dh]"
    using fm by (simp add: rearrange_merge_heads_def)
  have lin: "Linear_forward \<lparr> in_features = d, out_features = dh * nh * 3 \<rparr> [b, n, d]
               = Inr [b, n, dh * nh * 3]"
    by (simp add: Linear_forward_def)
  show ?thesis
    unfolding Attention_forward_def
    by (simp only: list.case Attention.simps lin then_do_Inr ch sp dots out mg)
qed

lemma Attention_init_forward:
  assumes "Attention_init d nh dh dropout = Inr a" "0 < nh"
  shows "Attention_forward a [b, n, d] = Inr [b, n, d]"
proof -
  have dh0: "dh \<noteq> 0" using assms(1) by (auto simp: Attention_init_def Let_def split: if_splits)
  from assms(1) dh0 obtain q where q: "Linear_init d (dh * nh * 3) = Inr q"
    by (auto simp: Attention_init_def Let_def then_do_eq_Inr split: if_splits)
  note Q = Linear_init_Inr [OF q]
  have "0 \<le> dh * nh" using Q by simp
  then have "0 \<le> dh" using assms(2) by (simp add: zero_le_mult_iff)
  then have dh: "0 < dh" using dh0 by simp
  have "dh * nh \<le> dh * nh * 3" using \<open>0 \<le> dh * nh\<close> by simp
  then have fi: "fits_int64 (dh * nh)"
    using Q \<open>0 \<le> dh * nh\<close> unfolding fits_int64_def by linarith
  show ?thesis
  proof (cases "nh = 1 \<and> dh = d")
    case True
    then have "a = \<lparr> heads = nh, to_qkv = \<lparr> in_features = d, out_features = dh * nh * 3 \<rparr>,
                      to_out = None \<rparr>"
      using assms(1) dh0 Q q by (auto simp: Attention_init_def Let_def split: if_splits)
    then show ?thesis
      using Attention_forward_record [OF assms(2) dh fi, of d None b n] True by simp
  next
    case False
    from assms(1) dh0 False q obtain out where o: "Linear_init (dh * nh) d = Inr out"
      and a: "a = \<lparr> heads = nh, to_qkv = q, to_out = Some out \<rparr>"
      by (auto simp: Attention_init_def Let_def then_do_eq_Inr split: if_splits)
    note O = Linear_init_Inr [OF o]
    have "a = \<lparr> heads = nh, to_qkv = \<lparr> in_features = d, out_features = dh * nh * 3 \<rparr>,
                to_out = Some \<lparr> in_features = dh * nh, out_features = d \<rparr> \<rparr>"
      using a Q O by simp
    then show ?thesis
      using Attention_forward_record [OF assms(2) dh fi, of d
          "Some \<lparr> in_features = dh * nh, out_features = d \<rparr>" b n]
      by (simp add: Linear_forward_def mult.commute)
  qed
qed

lemma FeedForward_init_forward:
  assumes "FeedForward_init d mlp dropout = Inr f"
  shows "FeedForward_forward f [b, n, d] = Inr [b, n, d]"
proof -
  from assms obtain l1 l2 where l1: "Linear_init d mlp = Inr l1"
    and l2: "Linear_init mlp d = Inr l2" and f: "f = \<lparr> ff_in = l1, ff_out = l2 \<rparr>"
    by (auto simp: FeedForward_init_def then_do_eq_Inr)
  show ?thesis
    using Linear_init_Inr [OF l1] Linear_init_Inr [OF l2]
    by (simp add: f FeedForward_forward_def Linear_forward_def)
qed

lemma PreNorm_init_Inr: "PreNorm_init d fn = Inr p \<Longrightarrow> p = \<lparr> pn_norm = d, pn_fn = fn \<rparr>"
  by (auto simp: PreNorm_init_def LayerNorm_init_def then_do_eq_Inr split: if_splits)

lemma build_layers_forward:
  assumes "build_layers k d nh dh mlp dropout = Inr ls" "0 < nh"
  shows "Transformer_forward ls [b, n, d] = Inr [b, n, d]"
  using assms(1)
proof (induction k arbitrary: ls)
  case 0
  then show ?case by simp
next
  case (Suc k)
  from Suc.prems obtain a pa f pf rest where
    a: "Attention_init d nh dh dropout = Inr a" and
    pa: "PreNorm_init d (AttentionBlock a) = Inr pa" and
    f: "FeedForward_init d mlp dropout = Inr f" and
    pf: "PreNorm_init d (FeedForwardBlock f) = Inr pf" and
    rest: "build_layers k d nh dh mlp dropout = Inr rest" and
    ls: "ls = (pa, pf) # rest"
    by (auto simp: then_do_eq_Inr)
  have af: "Attention_forward a [b, n, d] = Inr [b, n, d]"
    by (rule Attention_init_forward [OF a assms(2)])
  have ff: "FeedForward_forward f [b, n, d] = Inr [b, n, d]"
    by (rule FeedForward_init_forward [OF f])
  show ?case
    using Suc.IH [OF rest]
    by (simp add: ls PreNorm_init_Inr [OF pa] PreNorm_init_Inr [OF pf] PreNorm_forward_def
        LayerNorm_forward_def af ff broadcast_same)
qed


lemma ViT_init_Inr:
  assumes "ViT_init [pz, py, px] in_channels out_channels patch_emb_dim depth n_heads mlp_dim
             pos channels dim_head dropout emb_dropout = Inr v"
  shows "\<exists>si so.
           then_do (np_times (np_product [pz, py, px]) in_channels) as_size = Inr si \<and>
           Linear_init si patch_emb_dim = Inr (embed_patch v) \<and>
           pos_embedding v = None \<and>
           build_layers (nat depth) patch_emb_dim n_heads dim_head mlp_dim dropout
             = Inr (transformer v) \<and>
           then_do (np_times (np_product [pz, py, px]) out_channels) as_size = Inr so \<and>
           Linear_init patch_emb_dim so = Inr (unembed_patch v) \<and>
           unembed_sizes v = (out_channels, pz, py, px)"
  using assms
  by (auto simp: ViT_init_def Let_def then_do_eq_Inr Transformer_init_def split: if_splits)

lemma tensor_shape_fits: "tensor_shape s \<Longrightarrow> list_all fits_int64 s"
  by (auto simp: tensor_shape_def fits_int64_def list_all_iff)

subsection \<open>The shape of the output\<close>

text \<open>
  Claim C8, amended. For a model that construction has built, with a positive number of
  heads or no layer at all (\<open>depth \<le> 0\<close>), \<open>forward\<close> maps every input of shape
  \<open>(batch, n, in_channels, pz, py, px)\<close> to an output of shape
  \<open>(batch, n, out_channels, pz, py, px)\<close>, whenever these two lists and their flattened
  forms \<open>(batch, n, channels * pz * py * px)\<close> are shapes a tensor can have.
\<close>

theorem ViT_forward_returns_declared_shape:
  assumes "ViT_init [pz, py, px] in_channels out_channels patch_emb_dim depth n_heads mlp_dim
             pos channels dim_head dropout emb_dropout = Inr v"
    and "depth \<le> 0 \<or> 0 < n_heads"
    and "tensor_shape [b, n, in_channels, pz, py, px]"
    and "tensor_shape [b, n, in_channels * pz * py * px]"
    and "tensor_shape [b, n, out_channels, pz, py, px]"
    and "tensor_shape [b, n, out_channels * pz * py * px]"
  shows "ViT_forward v [b, n, in_channels, pz, py, px] = Inr [b, n, out_channels, pz, py, px]"
proof -
  from ViT_init_Inr [OF assms(1)] obtain si so where
    si: "then_do (np_times (np_product [pz, py, px]) in_channels) as_size = Inr si" and
    emb: "Linear_init si patch_emb_dim = Inr (embed_patch v)" and
    pe: "pos_embedding v = None" and
    ls: "build_layers (nat depth) patch_emb_dim n_heads dim_head mlp_dim dropout
           = Inr (transformer v)" and
    so: "then_do (np_times (np_product [pz, py, px]) out_channels) as_size = Inr so" and
    un: "Linear_init patch_emb_dim so = Inr (unembed_patch v)" and
    us: "unembed_sizes v = (out_channels, pz, py, px)"
    by blast
  have fin: "list_all fits_int64 [pz, py, px]" "fits_int64 in_channels"
    "fits_int64 (in_channels * pz * py * px)"
    using tensor_shape_fits [OF assms(3)] tensor_shape_fits [OF assms(4)] by simp_all
  have fout: "fits_int64 out_channels" "fits_int64 (out_channels * pz * py * px)"
    using tensor_shape_fits [OF assms(5)] tensor_shape_fits [OF assms(6)] by simp_all
  have nonneg: "0 \<le> out_channels" "0 \<le> pz" "0 \<le> py" "0 \<le> px"
    using assms(5) by (simp_all add: tensor_shape_def)
  have cin: "pz * py * px * in_channels = in_channels * pz * py * px" by (simp add: ac_simps)
  have cout: "pz * py * px * out_channels = out_channels * pz * py * px" by (simp add: ac_simps)
  have "si = in_channels * pz * py * px"
    using si patch_dim_size [OF fin(1,2)] fin(3) by (simp add: cin)
  then have e: "embed_patch v = \<lparr> in_features = in_channels * pz * py * px,
                                   out_features = patch_emb_dim \<rparr>"
    using Linear_init_Inr [OF emb] by simp
  have "so = out_channels * pz * py * px"
    using so patch_dim_size [OF fin(1) fout(1)] fout(2) by (simp add: cout)
  then have u: "unembed_patch v = \<lparr> in_features = patch_emb_dim,
                                     out_features = out_channels * pz * py * px \<rparr>"
    using Linear_init_Inr [OF un] by simp
  have tr: "Transformer_forward (transformer v) [b, n, patch_emb_dim] = Inr [b, n, patch_emb_dim]"
  proof (cases "0 < n_heads")
    case True
    then show ?thesis by (rule build_layers_forward [OF ls])
  next
    case False
    then have "nat depth = 0" using assms(2) by simp
    then have "transformer v = []" using ls by simp
    then show ?thesis by simp
  qed
  have s1: "rearrange_flatten_patch [b, n, in_channels, pz, py, px]
              = Inr [b, n, in_channels * pz * py * px]"
    using fin(3) by (simp add: rearrange_flatten_patch_def)
  have s2: "Linear_forward (embed_patch v) [b, n, in_channels * pz * py * px]
              = Inr [b, n, patch_emb_dim]"
    by (simp add: e Linear_forward_def)
  have s3: "Linear_forward (unembed_patch v) [b, n, patch_emb_dim]
              = Inr [b, n, out_channels * pz * py * px]"
    by (simp add: u Linear_forward_def)
  have s4: "rearrange_unflatten_patch out_channels pz py px [b, n, out_channels * pz * py * px]
              = Inr [b, n, out_channels, pz, py, px]"
    using fin(1) fout(1) nonneg by (simp add: rearrange_unflatten_patch_def)
  show ?thesis
    unfolding ViT_forward_def
    by (simp only: s1 then_do_Inr s2 pe option.case tr s3 us prod.case s4)
qed

text \<open>Evaluation of an example model.\<close>

lemmas model_eval =
  ViT_init_def accepted_pos_embeddings_def np_product_def np_times_def as_size_def
  fits_int64_def fits_uint64_def int64_def float_overflow_def Linear_init_def
  LayerNorm_init_def Dropout_init_def Transformer_init_def Attention_init_def
  FeedForward_init_def PreNorm_init_def Let_def numeral_2_eq_2

lemma example_ViT:
  "\<exists>v. ViT_init [2, 2, 2] 1 3 4 2 2 8 pos 3 2 0 0 = Inr v" if "pos \<in> set accepted_pos_embeddings"
  using that by (simp add: model_eval)

text \<open>
  Patches of \<open>2 \<times> 2 \<times> 2\<close> voxels, one input and three output channels, two layers of
  two heads: the input shape \<open>(1, 5, 1, 2, 2, 2)\<close> gives \<open>(1, 5, 3, 2, 2, 2)\<close>.
\<close>

theorem ViT_forward_returns_declared_shape_witness:
  "map_sum id (\<lambda>v. ViT_forward v [1, 5, 1, 2, 2, 2])
     (ViT_init [2, 2, 2] 1 3 4 2 2 8 ''none'' 3 2 0 0) = Inr (Inr [1, 5, 3, 2, 2, 2])"
proof -
  obtain v where v: "ViT_init [2, 2, 2] 1 3 4 2 2 8 ''none'' 3 2 0 0 = Inr v"
    using example_ViT [of "''none''"] by (auto simp: accepted_pos_embeddings_def)
  have "ViT_forward v [1, 5, 1, 2, 2, 2] = Inr [1, 5, 3, 2, 2, 2]"
    by (rule ViT_forward_returns_declared_shape [OF v]) (simp_all add: tensor_shape_def)
  then show ?thesis by (simp add: v)
qed

text \<open>
  Claim C8 as stated fails: with \<open>heads = 0\<close> the same model is constructed, and
  \<open>forward\<close> on the matching input \<open>(1, 5, 1, 2, 2, 2)\<close> raises \<open>ZeroDivisionError\<close>
  where einops divides by the number of heads. The constructor does not look at
  \<open>heads\<close>.
\<close>

theorem ViT_forward_raises_without_heads:
  "map_sum id (\<lambda>v. ViT_forward v [1, 5, 1, 2, 2, 2])
     (ViT_init [2, 2, 2] 1 3 4 2 0 8 ''none'' 3 2 0 0) = Inr (Inl ZeroDivisionError)"
  by (simp add: model_eval ViT_forward_def rearrange_flatten_patch_def Linear_forward_def
      PreNorm_forward_def LayerNorm_forward_def Attention_forward_def chunk_last_def
      rearrange_split_heads_def numeral_3_eq_3)

subsection \<open>The positional embedding\<close>

text \<open>
  Claim C10. For every accepted \<open>pos_embedding\<close> argument construction does what it does
  for \<open>'none'\<close>; a constructed model has \<open>pos_embedding = None\<close>, and its \<open>forward\<close> is
  the embedding, the transformer and the unembedding with no positional term added.
\<close>

theorem pos_embedding_is_always_None:
  assumes "pos \<in> set accepted_pos_embeddings"
  shows "ViT_init psz in_channels out_channels patch_emb_dim depth n_heads mlp_dim pos channels
           dim_head dropout emb_dropout
         = ViT_init psz in_channels out_channels patch_emb_dim depth n_heads mlp_dim ''none''
             channels dim_head dropout emb_dropout
       \<and> (\<forall>v. ViT_init psz in_channels out_channels patch_emb_dim depth n_heads mlp_dim pos
                 channels dim_head dropout emb_dropout = Inr v \<longrightarrow>
              pos_embedding v = None \<and>
              (\<forall>img. ViT_forward v img =
                 then_do (rearrange_flatten_patch img) (\<lambda>x0.
                 then_do (Linear_forward (embed_patch v) x0) (\<lambda>x.
                 then_do (Transformer_forward (transformer v) x) (\<lambda>x2.
                 then_do (Linear_forward (unembed_patch v) x2) (\<lambda>x3.
                 case unembed_sizes v of
                   (pco, pz, py, px) \<Rightarrow> rearrange_unflatten_patch pco pz py px x3))))))"
proof (intro conjI allI impI)
  have "''none'' \<in> set accepted_pos_embeddings" by (simp add: accepted_pos_embeddings_def)
  then show "ViT_init psz in_channels out_channels patch_emb_dim depth n_heads mlp_dim pos channels
           dim_head dropout emb_dropout
         = ViT_init psz in_channels out_channels patch_emb_dim depth n_heads mlp_dim ''none''
             channels dim_head dropout emb_dropout"
    using assms by (simp add: ViT_init_def)
next
  fix v
  assume init: "ViT_init psz in_channels out_channels patch_emb_dim depth n_heads mlp_dim pos
                 channels dim_head dropout emb_dropout = Inr v"
  then show none: "pos_embedding v = None"
    by (auto simp: ViT_init_def Let_def then_do_eq_Inr split: if_splits list.splits)
  fix img
  show "ViT_forward v img =
                 then_do (rearrange_flatten_patch img) (\<lambda>x0.
                 then_do (Linear_forward (embed_patch v) x0) (\<lambda>x.
                 then_do (Transformer_forward (transformer v) x) (\<lambda>x2.
                 then_do (Linear_forward (unembed_patch v) x2) (\<lambda>x3.
                 case unembed_sizes v of
                   (pco, pz, py, px) \<Rightarrow> rearrange_unflatten_patch pco pz py px x3))))"
    by (simp add: ViT_forward_def none)
qed

text \<open>The option \<open>'sin'\<close>.\<close>

theorem pos_embedding_is_always_None_witness:
  "''sin'' \<in> set accepted_pos_embeddings
   \<and> ViT_init [2, 2, 2] 1 3 4 2 2 8 ''sin'' 3 2 0 0 = ViT_init [2, 2, 2] 1 3 4 2 2 8 ''none'' 3 2 0 0
   \<and> map_sum id (\<lambda>v. pos_embedding v = None) (ViT_init [2, 2, 2] 1 3 4 2 2 8 ''sin'' 3 2 0 0)
       = Inr True"
proof -
  have acc: "''sin'' \<in> set accepted_pos_embeddings" by (simp add: accepted_pos_embeddings_def)
  obtain v where v: "ViT_init [2, 2, 2] 1 3 4 2 2 8 ''sin'' 3 2 0 0 = Inr v"
    using example_ViT [OF acc] by blast
  note c = pos_embedding_is_always_None [OF acc, of "[2, 2, 2]" 1 3 4 2 2 8 3 2 0 0]
  have eq: "ViT_init [2, 2, 2] 1 3 4 2 2 8 ''sin'' 3 2 0 0
              = ViT_init [2, 2, 2] 1 3 4 2 2 8 ''none'' 3 2 0 0"
    using c by blast
  have none: "pos_embedding v = None" using c v by blast
  have m: "map_sum id (\<lambda>v. pos_embedding v = None) (Inr v :: error + ViT) = Inr True"
    using none by simp
  show ?thesis
    apply (intro conjI)
      apply (rule acc)
     apply (rule eq)
    apply (subst v)
    apply (rule m)
    done
qed

end
